theory Spec2Isabelle
  imports Complex_Main
begin

section \<open>Data model\<close>

text \<open>
  The classifiers of \<^verbatim>\<open>spectral/algorithms/classifiers.py\<close> (Python 2, numpy).
  Python integers are \<open>int\<close>. The \<^verbatim>\<open>float64\<close> numbers of the source are read as
  real numbers: rounding, infinities and NaN are outside this development, so every
  statement below about a score or a distance is a statement about its exact value.
  A one-dimensional array is a list, a two-dimensional array the list of its rows.
  Every exception the source can raise on the paths modelled is a value of \<open>error\<close>.
\<close>

datatype error =
    NotImplementedError
  | ZeroDivisionError
  | ValueError
  | IndexError
  | TypeError
  | AttributeError

type_synonym vec = "real list"
type_synonym mat = "real list list"

text \<open>
  \<^verbatim>\<open>GaussianStats\<close> is imported by the source from a sibling module. Its attributes
  read here are \<^verbatim>\<open>mean\<close>, \<^verbatim>\<open>cov\<close>, \<^verbatim>\<open>inv_cov\<close>, \<^verbatim>\<open>log_det_cov\<close> and \<^verbatim>\<open>nsamples\<close>;
  \<^verbatim>\<open>mean\<close> and \<^verbatim>\<open>nsamples\<close> are \<^verbatim>\<open>None\<close> on an object built from a covariance alone.
\<close>

record GaussianStats =
  mean :: "vec option"
  cov :: mat
  inv_cov :: mat
  log_det_cov :: real
  nsamples :: "int option"

text \<open>
  A training class: \<^verbatim>\<open>cl.index\<close>, \<^verbatim>\<open>cl.size()\<close>, \<^verbatim>\<open>cl.class_prob\<close> and the attribute
  \<^verbatim>\<open>cl.stats\<close>, which is absent (\<open>None\<close> here) until \<^verbatim>\<open>cl.calc_stats()\<close> has run.
\<close>

record TrainingClass =
  index :: int
  size_tc :: int
  class_prob :: real
  stats :: "GaussianStats option"

text \<open>A training set: \<^verbatim>\<open>training_data.nbands\<close> and the classes in iteration order.\<close>

record TrainingClassSet =
  nbands :: int
  members :: "TrainingClass list"

text \<open>
  An image is an array of shape \<open>(nrows, ncols, nbands_img)\<close>; \<open>val im r c b\<close> is its
  entry at row \<open>r\<close>, column \<open>c\<close>, band \<open>b\<close> and is read inside the shape only.
\<close>

record image =
  nrows :: nat
  ncols :: nat
  nbands_img :: nat
  val :: "nat \<Rightarrow> nat \<Rightarrow> nat \<Rightarrow> real"

text \<open>
  The class hierarchy \<^verbatim>\<open>Classifier\<close>, \<^verbatim>\<open>SupervisedClassifier\<close> (which adds no
  attribute), \<^verbatim>\<open>GaussianClassifier\<close>, \<^verbatim>\<open>MahalanobisDistanceClassifier\<close> as record
  extensions. The attribute \<^verbatim>\<open>classes\<close> exists from the first call of \<^verbatim>\<open>train\<close> on,
  which overwrites it; no function below reads it before. \<^verbatim>\<open>background\<close> is \<open>None\<close>
  until \<^verbatim>\<open>MahalanobisDistanceClassifier.train\<close> has assigned it.
\<close>

record Classifier =
  cache_class_scores :: bool

record GaussianClassifier = Classifier +
  min_samples :: "int option"
  classes :: "TrainingClass list"

record MahalanobisDistanceClassifier = GaussianClassifier +
  background :: "GaussianStats option"

section \<open>Array operations of numpy used by the source\<close>

text \<open>\<open>is_mat r c A\<close>: the list of rows \<open>A\<close> is an array of shape \<open>(r, c)\<close>.\<close>

definition is_mat :: "nat \<Rightarrow> nat \<Rightarrow> mat \<Rightarrow> bool" where
  "is_mat r c A \<longleftrightarrow> length A = r \<and> list_all (\<lambda>row. length row = c) A"

definition dot_vv :: "vec \<Rightarrow> vec \<Rightarrow> real" where
  "dot_vv u v = sum_list (map2 (*) u v)"

definition dot_mv :: "mat \<Rightarrow> vec \<Rightarrow> vec" where
  "dot_mv A v = map (\<lambda>row. dot_vv row v) A"

definition column :: "mat \<Rightarrow> nat \<Rightarrow> vec" where
  "column A j = map (\<lambda>row. row ! j) A"

definition dot_vm :: "vec \<Rightarrow> mat \<Rightarrow> vec" where
  "dot_vm v A = map (\<lambda>j. dot_vv v (column A j)) [0..<length v]"

text \<open>
  \<^verbatim>\<open>x - cl.stats.mean\<close> on one-dimensional arrays: elementwise on equal lengths, an
  operand of length one is broadcast, any other pair of lengths raises.
\<close>

definition sub_vec :: "vec \<Rightarrow> vec \<Rightarrow> error + vec" where
  "sub_vec x m =
     (if length x = length m then Inr (map2 (-) x m)
      else if length m = 1 then Inr (map (\<lambda>a. a - m ! 0) x)
      else if length x = 1 then Inr (map (\<lambda>b. x ! 0 - b) m)
      else Inl ValueError)"

text \<open>
  \<^verbatim>\<open>dot(transpose(delta), dot(A, delta))\<close> with \<^verbatim>\<open>delta\<close> the column of a vector of
  length \<open>n\<close>: the inner product needs \<open>A\<close> to have \<open>n\<close> columns, the outer one needs it
  to have \<open>n\<close> rows; the result is a \<open>1 \<times> 1\<close> array, read here as its entry.
\<close>

definition quad_form :: "mat \<Rightarrow> vec \<Rightarrow> error + real" where
  "quad_form A delta =
     (if is_mat (length delta) (length delta) A
      then Inr (dot_vv delta (dot_mv A delta))
      else Inl ValueError)"

section \<open>Classifier\<close>

text \<open>\<^verbatim>\<open>Classifier.classify_spectrum(self, *args, **kwargs)\<close> raises whatever it is given.\<close>

definition Classifier_classify_spectrum ::
  "'s \<Rightarrow> 'args \<Rightarrow> 'kwargs \<Rightarrow> error + int" where
  "Classifier_classify_spectrum self args kwargs = Inl NotImplementedError"

section \<open>GaussianClassifier.classify_spectrum\<close>

text \<open>
  The body of the loop up to the comparison: \<^verbatim>\<open>delta\<close>, then \<^verbatim>\<open>prob\<close>.
  \<^verbatim>\<open>math.log\<close> raises \<^verbatim>\<open>ValueError\<close> on an argument that is not positive.
\<close>

definition gc_prob :: "TrainingClass \<Rightarrow> vec \<Rightarrow> error + real" where
  "gc_prob cl x =
     (case stats cl of
        None \<Rightarrow> Inl AttributeError
      | Some st \<Rightarrow>
          (case mean st of
             None \<Rightarrow> Inl TypeError
           | Some m \<Rightarrow>
               (case sub_vec x m of
                  Inl e \<Rightarrow> Inl e
                | Inr delta \<Rightarrow>
                    if class_prob cl \<le> 0 then Inl ValueError
                    else (case quad_form (inv_cov st) delta of
                            Inl e \<Rightarrow> Inl e
                          | Inr q \<Rightarrow>
                              Inr (ln (class_prob cl) - 0.5 * log_det_cov st - 0.5 * q)))))"

text \<open>The loop over \<^verbatim>\<open>self.classes\<close>; its state is \<open>(max_prob, max_class, first)\<close>.\<close>

fun gc_scan ::
  "TrainingClass list \<Rightarrow> vec \<Rightarrow> real \<times> int \<times> bool \<Rightarrow> error + real \<times> int \<times> bool" where
  "gc_scan [] x st = Inr st"
| "gc_scan (cl # cls) x (max_prob, max_class, first) =
     (case gc_prob cl x of
        Inl e \<Rightarrow> Inl e
      | Inr prob \<Rightarrow>
          if first \<or> prob > max_prob
          then gc_scan cls x (prob, index cl, False)
          else gc_scan cls x (max_prob, max_class, first))"

definition GaussianClassifier_classify_spectrum ::
  "'a GaussianClassifier_scheme \<Rightarrow> vec \<Rightarrow> error + int" where
  "GaussianClassifier_classify_spectrum self x =
     (case gc_scan (classes self) x (- 100000000000, - 1, True) of
        Inl e \<Rightarrow> Inl e
      | Inr (max_prob, max_class, first) \<Rightarrow> Inr max_class)"

section \<open>GaussianClassifier.train\<close>

text \<open>
  \<^verbatim>\<open>__init__(self, training_data=None, min_samples=None)\<close>, called without training
  data: \<^verbatim>\<open>if min_samples:\<close> is false for \<^verbatim>\<open>None\<close> and for \<open>0\<close>. With training data the
  constructor goes on to call \<^verbatim>\<open>train\<close>, modelled below.
\<close>

definition truthy :: "int option \<Rightarrow> bool" where
  "truthy v = (case v of None \<Rightarrow> False | Some n \<Rightarrow> n \<noteq> 0)"

definition GaussianClassifier_init :: "int option \<Rightarrow> GaussianClassifier" where
  "GaussianClassifier_init min_samples_arg =
     \<lparr>cache_class_scores = True,
      min_samples = (if truthy min_samples_arg then min_samples_arg else None),
      classes = []\<rparr>"

text \<open>
  The first loop of \<^verbatim>\<open>train\<close>: a class is appended to \<^verbatim>\<open>self.classes\<close> or a line is
  printed; a printed line is recorded as the two numbers it shows, \<^verbatim>\<open>cl.index\<close> and
  \<^verbatim>\<open>cl.size()\<close>. Nothing is raised.
\<close>

datatype report = Omitting int int

fun train_loop ::
  "int \<Rightarrow> TrainingClass list \<Rightarrow> TrainingClass list \<times> report list
     \<Rightarrow> TrainingClass list \<times> report list" where
  "train_loop ms [] acc = acc"
| "train_loop ms (cl # cls) (kept, printed) =
     (if size_tc cl \<ge> ms
      then train_loop ms cls (kept @ [cl], printed)
      else train_loop ms cls (kept, printed @ [Omitting (index cl) (size_tc cl)]))"

text \<open>
  The second loop: \<^verbatim>\<open>if not hasattr(cl, 'stats'): cl.calc_stats()\<close>. The statistics
  routine is not part of the source file; \<open>calc_stats\<close> is what it stores for a class.
\<close>

definition ensure_stats ::
  "(TrainingClass \<Rightarrow> GaussianStats) \<Rightarrow> TrainingClass \<Rightarrow> TrainingClass" where
  "ensure_stats calc_stats cl =
     (case stats cl of
        None \<Rightarrow> cl\<lparr>stats := Some (calc_stats cl)\<rparr>
      | Some st \<Rightarrow> cl)"

text \<open>\<^verbatim>\<open>train\<close> returns the object as it has become and the lines it printed.\<close>

definition GaussianClassifier_train ::
  "(TrainingClass \<Rightarrow> GaussianStats) \<Rightarrow> 'a GaussianClassifier_scheme \<Rightarrow> TrainingClassSet
     \<Rightarrow> 'a GaussianClassifier_scheme \<times> report list" where
  "GaussianClassifier_train calc_stats self training_data =
     (let ms = (if \<not> truthy (min_samples self) then nbands training_data
                else the (min_samples self));
          (kept, printed) = train_loop ms (members training_data) ([], [])
      in (self\<lparr>min_samples := Some ms, classes := map (ensure_stats calc_stats) kept\<rparr>,
          printed))"

section \<open>MahalanobisDistanceClassifier.train\<close>

text \<open>
  The shape of a two-dimensional array given as its rows. An array without rows is
  taken to have no columns, which is right for the square arrays that covariances are.
\<close>

definition mshape :: "mat \<Rightarrow> nat \<times> nat" where
  "mshape A = (length A, case A of [] \<Rightarrow> 0 | row # rest \<Rightarrow> length row)"

definition zeros :: "nat \<times> nat \<Rightarrow> mat" where
  "zeros sh = replicate (fst sh) (replicate (snd sh) 0)"

definition scale :: "int \<Rightarrow> mat \<Rightarrow> mat" where
  "scale n A = map (map (\<lambda>a. of_int n * a)) A"

text \<open>
  \<^verbatim>\<open>covariance += B\<close>: the right operand is added in place, an axis of length one of
  \<open>B\<close> being broadcast; shapes that do not fit raise \<^verbatim>\<open>ValueError\<close>.
\<close>

definition iadd :: "mat \<Rightarrow> mat \<Rightarrow> error + mat" where
  "iadd A B =
     (let (ra, ca) = mshape A; (rb, cb) = mshape B
      in if (rb = ra \<or> rb = 1) \<and> (cb = ca \<or> cb = 1)
         then Inr (map (\<lambda>i. map (\<lambda>j. A ! i ! j
                                 + B ! (if rb = 1 then 0 else i) ! (if cb = 1 then 0 else j))
                             [0..<ca])
                       [0..<ra])
         else Inl ValueError)"

text \<open>The accumulation loop; its state is \<open>(covariance, nsamples)\<close>.\<close>

fun pool_loop :: "TrainingClass list \<Rightarrow> mat \<times> int \<Rightarrow> error + mat \<times> int" where
  "pool_loop [] acc = Inr acc"
| "pool_loop (cl # cls) (covariance, n) =
     (case stats cl of
        None \<Rightarrow> Inl AttributeError
      | Some st \<Rightarrow>
          (case nsamples st of
             None \<Rightarrow> Inl TypeError
           | Some k \<Rightarrow>
               (case iadd covariance (scale k (cov st)) of
                  Inl e \<Rightarrow> Inl e
                | Inr covariance' \<Rightarrow> pool_loop cls (covariance', n + k))))"

text \<open>
  \<^verbatim>\<open>GaussianStats(cov=covariance)\<close>: the mean and the sample count stay unset; the
  inverse and the log-determinant are derived from the covariance by linear algebra
  that is not part of the source file (\<open>linalg_inv\<close>, \<open>logdet\<close>).
\<close>

definition GaussianStats_of_cov :: "(mat \<Rightarrow> mat) \<Rightarrow> (mat \<Rightarrow> real) \<Rightarrow> mat \<Rightarrow> GaussianStats" where
  "GaussianStats_of_cov linalg_inv logdet covariance =
     \<lparr>mean = None, cov = covariance, inv_cov = linalg_inv covariance,
      log_det_cov = logdet covariance, nsamples = None\<rparr>"

text \<open>
  \<^verbatim>\<open>train\<close> returns the object as it has become, the lines printed, and the exception
  raised if any: \<^verbatim>\<open>self.classes[0]\<close> raises \<^verbatim>\<open>IndexError\<close> when no class was retained,
  after \<^verbatim>\<open>GaussianClassifier.train\<close> has already stored the empty list.
\<close>

definition MahalanobisDistanceClassifier_train ::
  "(mat \<Rightarrow> mat) \<Rightarrow> (mat \<Rightarrow> real) \<Rightarrow> (TrainingClass \<Rightarrow> GaussianStats)
     \<Rightarrow> 'a MahalanobisDistanceClassifier_scheme \<Rightarrow> TrainingClassSet
     \<Rightarrow> 'a MahalanobisDistanceClassifier_scheme \<times> report list \<times> error option" where
  "MahalanobisDistanceClassifier_train linalg_inv logdet calc_stats self trainingData =
     (let (self1, printed) = GaussianClassifier_train calc_stats self trainingData
      in case classes self1 of
           [] \<Rightarrow> (self1, printed, Some IndexError)
         | cl0 # rest \<Rightarrow>
             (case stats cl0 of
                None \<Rightarrow> (self1, printed, Some AttributeError)
              | Some st0 \<Rightarrow>
                  (case pool_loop (classes self1) (zeros (mshape (cov st0)), 0) of
                     Inl e \<Rightarrow> (self1, printed, Some e)
                   | Inr (covariance, n) \<Rightarrow>
                       (self1\<lparr>background := Some (GaussianStats_of_cov linalg_inv logdet covariance)\<rparr>,
                        printed, None))))"

section \<open>MahalanobisDistanceClassifier.classify_spectrum\<close>

text \<open>The body of the loop up to the comparison: \<^verbatim>\<open>delta\<close>, then \<^verbatim>\<open>d2\<close>.\<close>

definition mdc_d2 :: "GaussianStats option \<Rightarrow> TrainingClass \<Rightarrow> vec \<Rightarrow> error + real" where
  "mdc_d2 bg cl x =
     (case stats cl of
        None \<Rightarrow> Inl AttributeError
      | Some st \<Rightarrow>
          (case mean st of
             None \<Rightarrow> Inl TypeError
           | Some m \<Rightarrow>
               (case sub_vec x m of
                  Inl e \<Rightarrow> Inl e
                | Inr delta \<Rightarrow>
                    (case bg of
                       None \<Rightarrow> Inl AttributeError
                     | Some b \<Rightarrow> quad_form (inv_cov b) delta))))"

text \<open>The loop over \<^verbatim>\<open>self.classes\<close>; its state is \<open>(max_class, d2_min, first)\<close>.\<close>

fun mdc_scan ::
  "GaussianStats option \<Rightarrow> TrainingClass list \<Rightarrow> vec \<Rightarrow> int \<times> real \<times> bool
     \<Rightarrow> error + int \<times> real \<times> bool" where
  "mdc_scan bg [] x st = Inr st"
| "mdc_scan bg (cl # cls) x (max_class, d2_min, first) =
     (case mdc_d2 bg cl x of
        Inl e \<Rightarrow> Inl e
      | Inr d2 \<Rightarrow>
          if first \<or> d2 < d2_min
          then mdc_scan bg cls x (index cl, d2, False)
          else mdc_scan bg cls x (max_class, d2_min, first))"

definition MahalanobisDistanceClassifier_classify_spectrum ::
  "'a MahalanobisDistanceClassifier_scheme \<Rightarrow> vec \<Rightarrow> error + int" where
  "MahalanobisDistanceClassifier_classify_spectrum self x =
     (case mdc_scan (background self) (classes self) x (- 1, - 1, True) of
        Inl e \<Rightarrow> Inl e
      | Inr (max_class, d2_min, first) \<Rightarrow> Inr max_class)"

section \<open>Classifier.classify_image: one pixel at a time\<close>

definition spectrum :: "image \<Rightarrow> nat \<Rightarrow> nat \<Rightarrow> vec" where
  "spectrum im r c = map (val im r c) [0..<nbands_img im]"

text \<open>
  Modelled from the spec: the pixel iterator \<^verbatim>\<open>ImageIterator\<close>, which the source imports
  from a sibling module. Given an image it produces a finite sequence of
  (spectrum, row, column) triples covering every pixel exactly once, here row by row,
  and \<^verbatim>\<open>get_num_elements\<close> is the total element count.
\<close>

definition ImageIterator :: "image \<Rightarrow> (vec \<times> nat \<times> nat) list" where
  "ImageIterator im =
     concat (map (\<lambda>r. map (\<lambda>c. (spectrum im r c, r, c)) [0..<ncols im]) [0..<nrows im])"

definition get_num_elements :: "image \<Rightarrow> int" where
  "get_num_elements im = int (nrows im * ncols im)"

text \<open>
  The loop \<^verbatim>\<open>for spectrum in it\<close>; its state is \<open>(class_map, i, reported)\<close>, where
  \<open>reported\<close> lists the percentages handed to the status display, which only shows
  them. \<^verbatim>\<open>i % inc\<close> on Python integers raises \<^verbatim>\<open>ZeroDivisionError\<close> when \<^verbatim>\<open>inc\<close> is
  zero. \<open>classify_spectrum\<close> is the method that \<^verbatim>\<open>self.classify_spectrum\<close> resolves to.
\<close>

fun classify_loop ::
  "(vec \<Rightarrow> error + int) \<Rightarrow> int \<Rightarrow> int \<Rightarrow> (vec \<times> nat \<times> nat) list
     \<Rightarrow> int list list \<times> int \<times> real list \<Rightarrow> error + int list list \<times> int \<times> real list" where
  "classify_loop classify_spectrum N inc [] st = Inr st"
| "classify_loop classify_spectrum N inc ((x, row, col) # rest) (class_map, i, reported) =
     (case classify_spectrum x of
        Inl e \<Rightarrow> Inl e
      | Inr k \<Rightarrow>
          (let class_map' = class_map[row := (class_map ! row)[col := k]];
               i' = i + 1
           in if inc = 0 then Inl ZeroDivisionError
              else if i' mod inc = 0
              then classify_loop classify_spectrum N inc rest
                     (class_map', i', reported @ [of_int i' / of_int N * 100])
              else classify_loop classify_spectrum N inc rest (class_map', i', reported)))"

text \<open>
  \<^verbatim>\<open>N / 100\<close> divides two Python 2 integers, rounding down. The entries of
  \<^verbatim>\<open>class_map\<close> are the integers returned by \<^verbatim>\<open>classify_spectrum\<close>.
\<close>

definition Classifier_classify_image ::
  "(vec \<Rightarrow> error + int) \<Rightarrow> image \<Rightarrow> error + int list list" where
  "Classifier_classify_image classify_spectrum im =
     (let it = ImageIterator im;
          class_map = replicate (nrows im) (replicate (ncols im) 0);
          N = get_num_elements im;
          inc = N div 100
      in case classify_loop classify_spectrum N inc it (class_map, 0, []) of
           Inl e \<Rightarrow> Inl e
         | Inr (class_map', i, reported) \<Rightarrow> Inr class_map')"

section \<open>GaussianClassifier.classify_image: all pixels per class\<close>

text \<open>
  \<^verbatim>\<open>image.reshape(-1, shape[-1])\<close>: the pixels row by row; numpy cannot infer the
  unknown dimension when the last one is zero and raises \<^verbatim>\<open>ValueError\<close>.
\<close>

definition reshape_image :: "image \<Rightarrow> error + vec list" where
  "reshape_image im =
     (if nbands_img im = 0 then Inl ValueError
      else Inr (concat (map (\<lambda>r. map (\<lambda>c. spectrum im r c) [0..<ncols im]) [0..<nrows im])))"

text \<open>
  \<^verbatim>\<open>np.subtract(image, c.stats.mean, out=delta)\<close> on an image of \<open>B\<close> bands: the mean
  is subtracted from every row; it has length \<open>B\<close>, or length one and is broadcast.
\<close>

definition sub_rows :: "nat \<Rightarrow> vec list \<Rightarrow> vec \<Rightarrow> error + vec list" where
  "sub_rows B img m =
     (if length m = B then Inr (map (\<lambda>x. map2 (-) x m) img)
      else if length m = 1 then Inr (map (\<lambda>x. map (\<lambda>a. a - m ! 0) x) img)
      else Inl ValueError)"

text \<open>
  One pass of the loop over the classes: the column \<^verbatim>\<open>scores[:, i]\<close>.
  \<^verbatim>\<open>delta.dot(c.stats.inv_cov, out=Y)\<close> needs a \<open>B \<times> B\<close> matrix, and
  \<^verbatim>\<open>einsum('ij,ij->i', Y, delta)\<close> is the inner product of corresponding rows.
\<close>

definition gc_score_column :: "TrainingClass \<Rightarrow> nat \<Rightarrow> vec list \<Rightarrow> error + real list" where
  "gc_score_column c B img =
     (if class_prob c \<le> 0 then Inl ValueError
      else case stats c of
             None \<Rightarrow> Inl AttributeError
           | Some st \<Rightarrow>
               (let scalar = ln (class_prob c) - 0.5 * log_det_cov st
                in case mean st of
                     None \<Rightarrow> Inl TypeError
                   | Some m \<Rightarrow>
                       (case sub_rows B img m of
                          Inl e \<Rightarrow> Inl e
                        | Inr delta \<Rightarrow>
                            if is_mat B B (inv_cov st)
                            then Inr (map (\<lambda>d. - 0.5 * dot_vv (dot_vm d (inv_cov st)) d + scalar)
                                          delta)
                            else Inl ValueError)))"

text \<open>The score table, as the list of its columns in the order of \<^verbatim>\<open>self.classes\<close>.\<close>

fun gc_scores :: "TrainingClass list \<Rightarrow> nat \<Rightarrow> vec list \<Rightarrow> error + real list list" where
  "gc_scores [] B img = Inr []"
| "gc_scores (c # cs) B img =
     (case gc_score_column c B img of
        Inl e \<Rightarrow> Inl e
      | Inr col \<Rightarrow>
          (case gc_scores cs B img of
             Inl e \<Rightarrow> Inl e
           | Inr cols \<Rightarrow> Inr (col # cols)))"

text \<open>
  \<^verbatim>\<open>np.argmax\<close> and \<^verbatim>\<open>np.argmin\<close> return the index of the first occurrence of the
  greatest (least) entry and raise \<^verbatim>\<open>ValueError\<close> along an axis of length zero.
\<close>

definition first_index :: "('a \<Rightarrow> bool) \<Rightarrow> 'a list \<Rightarrow> nat" where
  "first_index P xs = length (takeWhile (\<lambda>v. \<not> P v) xs)"

definition np_argmax :: "real list \<Rightarrow> nat" where
  "np_argmax xs = first_index (\<lambda>v. v = Max (set xs)) xs"

definition np_argmin :: "real list \<Rightarrow> nat" where
  "np_argmin xs = first_index (\<lambda>v. v = Min (set xs)) xs"

text \<open>\<^verbatim>\<open>reshape(shape[:2])\<close> of a flat array of \<open>M * N\<close> entries.\<close>

definition reshape2 :: "nat \<Rightarrow> nat \<Rightarrow> 'a list \<Rightarrow> 'a list list" where
  "reshape2 M N flat = map (\<lambda>r. take N (drop (r * N) flat)) [0..<M]"

definition GaussianClassifier_classify_image ::
  "(vec \<Rightarrow> error + int) \<Rightarrow> 'a GaussianClassifier_scheme \<Rightarrow> image \<Rightarrow> error + int list list" where
  "GaussianClassifier_classify_image classify_spectrum self im =
     (if \<not> cache_class_scores self then Classifier_classify_image classify_spectrum im
      else case reshape_image im of
             Inl e \<Rightarrow> Inl e
           | Inr img \<Rightarrow>
               (case gc_scores (classes self) (nbands_img im) img of
                  Inl e \<Rightarrow> Inl e
                | Inr scores \<Rightarrow>
                    (let inds = map index (classes self)
                     in if scores = [] then Inl ValueError
                        else
                          (let mins = map (\<lambda>p. np_argmax (map (\<lambda>col. col ! p) scores))
                                          [0..<length img]
                           in Inr (reshape2 (nrows im) (ncols im) (map (\<lambda>k. inds ! k) mins))))))"

section \<open>MahalanobisDistanceClassifier.classify_image\<close>

text \<open>
  The loop over the classes. Each pass assigns \<^verbatim>\<open>self.background.mean\<close> and calls the
  detector \<open>rx\<close> (imported by the source from a sibling module) on the whole image for
  one \<open>nrows \<times> ncols\<close> layer of scores. Returned: the layers in class order, or the
  exception, and the background as the loop left it.
\<close>

fun mdc_layers ::
  "(GaussianStats \<Rightarrow> image \<Rightarrow> error + real list list) \<Rightarrow> image \<Rightarrow> TrainingClass list
     \<Rightarrow> GaussianStats option \<Rightarrow> (error + real list list list) \<times> GaussianStats option" where
  "mdc_layers rx im [] bg = (Inr [], bg)"
| "mdc_layers rx im (c # cs) bg =
     (case stats c of
        None \<Rightarrow> (Inl AttributeError, bg)
      | Some st \<Rightarrow>
          (case bg of
             None \<Rightarrow> (Inl AttributeError, bg)
           | Some b \<Rightarrow>
               (let b' = b\<lparr>mean := mean st\<rparr>
                in case rx b' im of
                     Inl e \<Rightarrow> (Inl e, Some b')
                   | Inr layer \<Rightarrow>
                       if \<not> is_mat (nrows im) (ncols im) layer then (Inl ValueError, Some b')
                       else (case mdc_layers rx im cs (Some b') of
                               (Inl e, bg') \<Rightarrow> (Inl e, bg')
                             | (Inr layers, bg') \<Rightarrow> (Inr (layer # layers), bg')))))"

text \<open>
  The result and the object as the call leaves it. With \<^verbatim>\<open>cache_class_scores\<close> false
  the call goes through \<^verbatim>\<open>GaussianClassifier.classify_image\<close> to the loop of
  \<^verbatim>\<open>Classifier.classify_image\<close>, with this class's \<^verbatim>\<open>classify_spectrum\<close>.
\<close>

definition MahalanobisDistanceClassifier_classify_image ::
  "(GaussianStats \<Rightarrow> image \<Rightarrow> error + real list list)
     \<Rightarrow> 'a MahalanobisDistanceClassifier_scheme \<Rightarrow> image
     \<Rightarrow> (error + int list list) \<times> 'a MahalanobisDistanceClassifier_scheme" where
  "MahalanobisDistanceClassifier_classify_image rx self im =
     (if \<not> cache_class_scores self
      then (GaussianClassifier_classify_image
              (MahalanobisDistanceClassifier_classify_spectrum self) self im, self)
      else case mdc_layers rx im (classes self) (background self) of
             (Inl e, bg') \<Rightarrow> (Inl e, self\<lparr>background := bg'\<rparr>)
           | (Inr scores, bg') \<Rightarrow>
               (let inds = map index (classes self)
                in if scores = [] then (Inl ValueError, self\<lparr>background := bg'\<rparr>)
                   else (Inr (map (\<lambda>r. map (\<lambda>c. inds ! np_argmin (map (\<lambda>layer. layer ! r ! c) scores))
                                            [0..<ncols im])
                                  [0..<nrows im]),
                         self\<lparr>background := bg'\<rparr>)))"

text \<open>
  Modelled from the spec: the background-dissimilarity detector \<^verbatim>\<open>RX\<close>, which the source
  imports from a sibling module. Given a background and an image it returns a per-pixel
  score array, the squared Mahalanobis distance of the pixel to the background mean
  under the background's inverse covariance.
\<close>

definition RX :: "GaussianStats \<Rightarrow> image \<Rightarrow> error + real list list" where
  "RX bg im =
     (case mean bg of
        None \<Rightarrow> Inl TypeError
      | Some m \<Rightarrow>
          if length m = nbands_img im \<and> is_mat (nbands_img im) (nbands_img im) (inv_cov bg)
          then Inr (map (\<lambda>r. map (\<lambda>c. let d = map2 (-) (spectrum im r c) m
                                      in dot_vv d (dot_mv (inv_cov bg) d))
                                [0..<ncols im])
                        [0..<nrows im])
          else Inl ValueError)"

section \<open>What the specification states, in its own words\<close>

text \<open>
  The quadratic form \<open>(x - m)\<^sup>t \<cdot> A \<cdot> (x - m)\<close> written out entry by entry, the
  Gaussian score \<open>log(classProbability) - 0.5 \<cdot> logDetCovariance - 0.5 \<cdot> quadratic\<close>
  and the squared Mahalanobis distance under the background's inverse covariance.
\<close>

definition spec_quadratic :: "vec \<Rightarrow> vec \<Rightarrow> mat \<Rightarrow> real" where
  "spec_quadratic x m A =
     (\<Sum>i<length x. \<Sum>j<length x. (x ! i - m ! i) * A ! i ! j * (x ! j - m ! j))"

definition spec_score :: "TrainingClass \<Rightarrow> vec \<Rightarrow> real" where
  "spec_score c x =
     ln (class_prob c) - 0.5 * log_det_cov (the (stats c))
       - 0.5 * spec_quadratic x (the (mean (the (stats c)))) (inv_cov (the (stats c)))"

definition spec_d2 :: "GaussianStats \<Rightarrow> TrainingClass \<Rightarrow> vec \<Rightarrow> real" where
  "spec_d2 bg c x = spec_quadratic x (the (mean (the (stats c)))) (inv_cov bg)"

text \<open>
  Position \<open>k\<close> holds the greatest (least) value of \<open>f\<close> over the list, and no earlier
  position holds a value as great (as small): the first one wins a tie.
\<close>

definition is_first_max :: "('a \<Rightarrow> real) \<Rightarrow> 'a list \<Rightarrow> nat \<Rightarrow> bool" where
  "is_first_max f xs k \<longleftrightarrow>
     k < length xs \<and> (\<forall>j<length xs. f (xs ! j) \<le> f (xs ! k)) \<and> (\<forall>j<k. f (xs ! j) < f (xs ! k))"

definition is_first_min :: "('a \<Rightarrow> real) \<Rightarrow> 'a list \<Rightarrow> nat \<Rightarrow> bool" where
  "is_first_min f xs k \<longleftrightarrow>
     k < length xs \<and> (\<forall>j<length xs. f (xs ! k) \<le> f (xs ! j)) \<and> (\<forall>j<k. f (xs ! k) < f (xs ! j))"

text \<open>
  The data model of the specification for a class of a \<open>B\<close>-band training set: its
  statistics are present, the mean has length \<open>B\<close>; for the Gaussian classifier the
  inverse covariance is \<open>B \<times> B\<close> and the prior is positive; for the pooling the
  covariance has the common shape and the sample count is set.
\<close>

definition fits :: "nat \<Rightarrow> TrainingClass \<Rightarrow> bool" where
  "fits B cl \<longleftrightarrow>
     (case stats cl of
        None \<Rightarrow> False
      | Some st \<Rightarrow> (case mean st of None \<Rightarrow> False | Some m \<Rightarrow> length m = B))"

definition gc_fits :: "nat \<Rightarrow> TrainingClass \<Rightarrow> bool" where
  "gc_fits B cl \<longleftrightarrow> fits B cl \<and> is_mat B B (inv_cov (the (stats cl))) \<and> 0 < class_prob cl"

definition has_cov :: "nat \<Rightarrow> nat \<Rightarrow> TrainingClass \<Rightarrow> bool" where
  "has_cov r c cl \<longleftrightarrow>
     (case stats cl of
        None \<Rightarrow> False
      | Some st \<Rightarrow> is_mat r c (cov st) \<and> nsamples st \<noteq> None)"

text \<open>Entry \<open>(i, j)\<close> of \<open>n \<cdot> C\<close> for the sample count \<open>n\<close> and covariance \<open>C\<close> of a class.\<close>

definition weighted_entry :: "TrainingClass \<Rightarrow> nat \<Rightarrow> nat \<Rightarrow> real" where
  "weighted_entry cl i j =
     of_int (the (nsamples (the (stats cl)))) * cov (the (stats cl)) ! i ! j"

section \<open>Example data\<close>

text \<open>
  Two bands. Class A (index 1, 20 samples) has mean \<open>(0, 0)\<close>, class B (index 2, 30
  samples) has mean \<open>(5, 5)\<close>, both with the identity as covariance and equal priors;
  class A2 (index 3) has the statistics of class A; class C (index 6, 10 samples) has
  another covariance; classes S (index 4, 5 samples) and T (index 5, 3 samples) have
  no statistics yet.
\<close>

definition identity2 :: mat where
  "identity2 = [[1, 0], [0, 1]]"

definition stats_A :: GaussianStats where
  "stats_A = \<lparr>mean = Some [0, 0], cov = identity2, inv_cov = identity2,
              log_det_cov = 0, nsamples = Some 20\<rparr>"

definition stats_B :: GaussianStats where
  "stats_B = \<lparr>mean = Some [5, 5], cov = identity2, inv_cov = identity2,
              log_det_cov = 0, nsamples = Some 30\<rparr>"

definition stats_C :: GaussianStats where
  "stats_C = \<lparr>mean = Some [1, 1], cov = [[2, 1], [1, 2]],
              inv_cov = [[2 / 3, - 1 / 3], [- 1 / 3, 2 / 3]],
              log_det_cov = ln 3, nsamples = Some 10\<rparr>"

definition class_A :: TrainingClass where
  "class_A = \<lparr>index = 1, size_tc = 20, class_prob = 1 / 2, stats = Some stats_A\<rparr>"

definition class_B :: TrainingClass where
  "class_B = \<lparr>index = 2, size_tc = 30, class_prob = 1 / 2, stats = Some stats_B\<rparr>"

definition class_A2 :: TrainingClass where
  "class_A2 = \<lparr>index = 3, size_tc = 20, class_prob = 1 / 2, stats = Some stats_A\<rparr>"

definition class_C :: TrainingClass where
  "class_C = \<lparr>index = 6, size_tc = 10, class_prob = 1 / 2, stats = Some stats_C\<rparr>"

definition class_S :: TrainingClass where
  "class_S = \<lparr>index = 4, size_tc = 5, class_prob = 1 / 2, stats = None\<rparr>"

definition class_T :: TrainingClass where
  "class_T = \<lparr>index = 5, size_tc = 3, class_prob = 1 / 2, stats = None\<rparr>"

text \<open>Classifiers holding the classes B, A, A2 in this order.\<close>

definition gauss_BAA :: GaussianClassifier where
  "gauss_BAA = \<lparr>cache_class_scores = True, min_samples = Some 10,
                classes = [class_B, class_A, class_A2]\<rparr>"

definition background_I :: GaussianStats where
  "background_I = \<lparr>mean = None, cov = identity2, inv_cov = identity2,
                   log_det_cov = 0, nsamples = None\<rparr>"

definition mahal_BAA :: MahalanobisDistanceClassifier where
  "mahal_BAA = \<lparr>cache_class_scores = True, min_samples = Some 10,
                classes = [class_B, class_A, class_A2], background = Some background_I\<rparr>"

text \<open>Training sets: sample counts 5, 20, 3; two classes with statistics; none retained.\<close>

definition training_5_20_3 :: TrainingClassSet where
  "training_5_20_3 = \<lparr>nbands = 2, members = [class_S, class_A, class_T]\<rparr>"

definition training_A_C :: TrainingClassSet where
  "training_A_C = \<lparr>nbands = 2, members = [class_A, class_C]\<rparr>"

definition training_small :: TrainingClassSet where
  "training_small = \<lparr>nbands = 10, members = [class_S, class_T]\<rparr>"

text \<open>The inverse and the log-determinant of a \<open>2 \<times> 2\<close> matrix, for the examples.\<close>

definition det_2x2 :: "mat \<Rightarrow> real" where
  "det_2x2 A = A ! 0 ! 0 * A ! 1 ! 1 - A ! 0 ! 1 * A ! 1 ! 0"

definition inv_2x2 :: "mat \<Rightarrow> mat" where
  "inv_2x2 A = [[A ! 1 ! 1 / det_2x2 A, - (A ! 0 ! 1) / det_2x2 A],
                [- (A ! 1 ! 0) / det_2x2 A, A ! 0 ! 0 / det_2x2 A]]"

definition logdet_2x2 :: "mat \<Rightarrow> real" where
  "logdet_2x2 A = ln (det_2x2 A)"

definition untrained_mahal :: MahalanobisDistanceClassifier where
  "untrained_mahal = \<lparr>cache_class_scores = True, min_samples = None, classes = [],
                      background = None\<rparr>"

text \<open>Spectra and images: one pixel, no pixel, and two rows of two pixels.\<close>

definition x_near_A :: vec where
  "x_near_A = [1 / 10, - 1 / 10]"

definition image_1x1 :: image where
  "image_1x1 = \<lparr>nrows = 1, ncols = 1, nbands_img = 2, val = (\<lambda>r c b. 0)\<rparr>"

definition image_empty :: image where
  "image_empty = \<lparr>nrows = 0, ncols = 3, nbands_img = 2, val = (\<lambda>r c b. 0)\<rparr>"

definition image_2x2 :: image where
  "image_2x2 = \<lparr>nrows = 2, ncols = 2, nbands_img = 2,
                val = (\<lambda>r c b. if r = 0 then 0 else 5)\<rparr>"

text \<open>A statistics routine for the examples: every class gets the statistics of class A.\<close>

definition calc_example :: "TrainingClass \<Rightarrow> GaussianStats" where
  "calc_example cl = stats_A"

section \<open>Linear algebra of the scores\<close>

lemma dot_vv_sum: "length u = length v \<Longrightarrow> dot_vv u v = (\<Sum>i<length u. u ! i * v ! i)"
  by (simp add: dot_vv_def sum_list_sum_nth atLeast0LessThan)

lemma is_mat_row: "is_mat r c A \<Longrightarrow> i < r \<Longrightarrow> length (A ! i) = c"
  by (simp add: is_mat_def list_all_length)

lemma quad_form_sum:
  assumes "is_mat (length d) (length d) A"
  shows "quad_form A d = Inr (\<Sum>i<length d. \<Sum>j<length d. d ! i * A ! i ! j * d ! j)"
proof -
  have len: "length A = length d" using assms by (simp add: is_mat_def)
  have row: "\<And>i. i < length d \<Longrightarrow> length (A ! i) = length d"
    using assms by (rule is_mat_row)
  have "dot_vv d (dot_mv A d) = (\<Sum>i<length d. d ! i * dot_vv (A ! i) d)"
    by (simp add: dot_vv_sum dot_mv_def len)
  also have "\<dots> = (\<Sum>i<length d. \<Sum>j<length d. d ! i * A ! i ! j * d ! j)"
    by (rule sum.cong) (simp_all add: dot_vv_sum row sum_distrib_left mult.assoc)
  finally show ?thesis using assms by (simp add: quad_form_def)
qed

lemma gc_prob_spec:
  assumes "gc_fits (length x) cl"
  shows "gc_prob cl x = Inr (spec_score cl x)"
proof -
  from assms obtain st m where st: "stats cl = Some st" and m: "mean st = Some m"
    and lm: "length m = length x" and A: "is_mat (length x) (length x) (inv_cov st)"
    and p: "0 < class_prob cl"
    by (auto simp: gc_fits_def fits_def split: option.splits)
  have sv: "sub_vec x m = Inr (map2 (-) x m)" using lm by (simp add: sub_vec_def)
  have q: "quad_form (inv_cov st) (map2 (-) x m) = Inr (spec_quadratic x m (inv_cov st))"
    using quad_form_sum [of "map2 (-) x m" "inv_cov st"] A lm
    by (simp add: spec_quadratic_def)
  show ?thesis using st m sv q p by (simp add: gc_prob_def spec_score_def)
qed

lemma mdc_d2_spec:
  assumes "fits (length x) cl" "is_mat (length x) (length x) (inv_cov bg)"
  shows "mdc_d2 (Some bg) cl x = Inr (spec_d2 bg cl x)"
proof -
  from assms(1) obtain st m where st: "stats cl = Some st" and m: "mean st = Some m"
    and lm: "length m = length x"
    by (auto simp: fits_def split: option.splits)
  have sv: "sub_vec x m = Inr (map2 (-) x m)" using lm by (simp add: sub_vec_def)
  have q: "quad_form (inv_cov bg) (map2 (-) x m) = Inr (spec_quadratic x m (inv_cov bg))"
    using quad_form_sum [of "map2 (-) x m" "inv_cov bg"] assms(2) lm
    by (simp add: spec_quadratic_def)
  show ?thesis using st m sv q by (simp add: mdc_d2_def spec_d2_def)
qed

section \<open>The scanning loops keep the first best class\<close>

lemma is_first_max_single: "is_first_max f [c] 0"
  by (simp add: is_first_max_def)

lemma is_first_max_snoc_greater:
  assumes "is_first_max f pre k" "f (pre ! k) < f c"
  shows "is_first_max f (pre @ [c]) (length pre)"
  using assms unfolding is_first_max_def
  by (auto simp: nth_append less_Suc_eq intro: le_less_trans less_imp_le)

lemma is_first_max_snoc_keep:
  assumes "is_first_max f pre k" "f c \<le> f (pre ! k)"
  shows "is_first_max f (pre @ [c]) k"
  using assms unfolding is_first_max_def
  by (auto simp: nth_append less_Suc_eq)

lemma is_first_min_single: "is_first_min f [c] 0"
  by (simp add: is_first_min_def)

lemma is_first_min_snoc_less:
  assumes "is_first_min f pre k" "f c < f (pre ! k)"
  shows "is_first_min f (pre @ [c]) (length pre)"
  using assms unfolding is_first_min_def
  by (auto simp: nth_append less_Suc_eq intro: less_le_trans less_imp_le)

lemma is_first_min_snoc_keep:
  assumes "is_first_min f pre k" "f (pre ! k) \<le> f c"
  shows "is_first_min f (pre @ [c]) k"
  using assms unfolding is_first_min_def
  by (auto simp: nth_append less_Suc_eq)

text \<open>
  The invariant of the loop of \<^verbatim>\<open>GaussianClassifier.classify_spectrum\<close>, with \<open>pre\<close>
  the classes already seen: \<open>first\<close> holds exactly while none was seen, and afterwards
  \<open>(max_prob, max_class)\<close> are the score and the index of the first best class of \<open>pre\<close>.
\<close>

lemma gc_scan_inv:
  assumes "\<forall>cl\<in>set cls. gc_prob cl x = Inr (f cl)"
    and "first \<longleftrightarrow> pre = []"
    and "\<not> first \<longrightarrow> (\<exists>k. is_first_max f pre k \<and> mp = f (pre ! k) \<and> mc = index (pre ! k))"
  shows "\<exists>mp' mc' first'. gc_scan cls x (mp, mc, first) = Inr (mp', mc', first')
           \<and> (first' \<longleftrightarrow> pre @ cls = [])
           \<and> (first' \<longrightarrow> mc' = mc)
           \<and> (\<not> first' \<longrightarrow> (\<exists>k. is_first_max f (pre @ cls) k \<and> mp' = f ((pre @ cls) ! k)
                                  \<and> mc' = index ((pre @ cls) ! k)))"
  using assms
proof (induction cls arbitrary: pre mp mc first)
  case Nil
  then show ?case by simp
next
  case (Cons c cls)
  have pc: "gc_prob c x = Inr (f c)" using Cons.prems(1) by simp
  have rest: "\<forall>cl\<in>set cls. gc_prob cl x = Inr (f cl)" using Cons.prems(1) by simp
  show ?case
  proof (cases "first \<or> f c > mp")
    case True
    have "\<exists>k. is_first_max f (pre @ [c]) k \<and> f c = f ((pre @ [c]) ! k)
             \<and> index c = index ((pre @ [c]) ! k)"
    proof (cases first)
      case True
      then have "pre = []" using Cons.prems(2) by simp
      then show ?thesis using is_first_max_single [of f c] by auto
    next
      case False
      then obtain k where k: "is_first_max f pre k" "mp = f (pre ! k)"
        using Cons.prems(3) by auto
      with \<open>first \<or> f c > mp\<close> False have "is_first_max f (pre @ [c]) (length pre)"
        using is_first_max_snoc_greater by auto
      then show ?thesis by (intro exI [of _ "length pre"]) simp
    qed
    then have "\<exists>mp' mc' first'. gc_scan cls x (f c, index c, False) = Inr (mp', mc', first')
           \<and> (first' \<longleftrightarrow> (pre @ [c]) @ cls = [])
           \<and> (first' \<longrightarrow> mc' = index c)
           \<and> (\<not> first' \<longrightarrow> (\<exists>k. is_first_max f ((pre @ [c]) @ cls) k
                  \<and> mp' = f (((pre @ [c]) @ cls) ! k) \<and> mc' = index (((pre @ [c]) @ cls) ! k)))"
      by (intro Cons.IH [OF rest]) simp_all
    then show ?thesis using True pc by auto
  next
    case False
    then have nf: "\<not> first" and le: "f c \<le> mp" by auto
    then obtain k where k: "is_first_max f pre k" "mp = f (pre ! k)" "mc = index (pre ! k)"
      using Cons.prems(3) by auto
    have lt: "k < length pre" using k(1) by (simp add: is_first_max_def)
    have "is_first_max f (pre @ [c]) k" using k le is_first_max_snoc_keep by auto
    then have "\<exists>k. is_first_max f (pre @ [c]) k \<and> mp = f ((pre @ [c]) ! k)
             \<and> mc = index ((pre @ [c]) ! k)"
      using k lt by (intro exI [of _ k]) (simp add: nth_append)
    then have "\<exists>mp' mc' first'. gc_scan cls x (mp, mc, first) = Inr (mp', mc', first')
           \<and> (first' \<longleftrightarrow> (pre @ [c]) @ cls = [])
           \<and> (first' \<longrightarrow> mc' = mc)
           \<and> (\<not> first' \<longrightarrow> (\<exists>k. is_first_max f ((pre @ [c]) @ cls) k
                  \<and> mp' = f (((pre @ [c]) @ cls) ! k) \<and> mc' = index (((pre @ [c]) @ cls) ! k)))"
      using nf by (intro Cons.IH [OF rest]) simp_all
    then show ?thesis using False pc by auto
  qed
qed

text \<open>The same for \<^verbatim>\<open>MahalanobisDistanceClassifier.classify_spectrum\<close>, with the least distance.\<close>

lemma mdc_scan_inv:
  assumes "\<forall>cl\<in>set cls. mdc_d2 bg cl x = Inr (f cl)"
    and "first \<longleftrightarrow> pre = []"
    and "\<not> first \<longrightarrow> (\<exists>k. is_first_min f pre k \<and> dm = f (pre ! k) \<and> mc = index (pre ! k))"
  shows "\<exists>mc' dm' first'. mdc_scan bg cls x (mc, dm, first) = Inr (mc', dm', first')
           \<and> (first' \<longleftrightarrow> pre @ cls = [])
           \<and> (first' \<longrightarrow> mc' = mc)
           \<and> (\<not> first' \<longrightarrow> (\<exists>k. is_first_min f (pre @ cls) k \<and> dm' = f ((pre @ cls) ! k)
                                  \<and> mc' = index ((pre @ cls) ! k)))"
  using assms
proof (induction cls arbitrary: pre dm mc first)
  case Nil
  then show ?case by simp
next
  case (Cons c cls)
  have pc: "mdc_d2 bg c x = Inr (f c)" using Cons.prems(1) by simp
  have rest: "\<forall>cl\<in>set cls. mdc_d2 bg cl x = Inr (f cl)" using Cons.prems(1) by simp
  show ?case
  proof (cases "first \<or> f c < dm")
    case True
    have "\<exists>k. is_first_min f (pre @ [c]) k \<and> f c = f ((pre @ [c]) ! k)
             \<and> index c = index ((pre @ [c]) ! k)"
    proof (cases first)
      case True
      then have "pre = []" using Cons.prems(2) by simp
      then show ?thesis using is_first_min_single [of f c] by auto
    next
      case False
      then obtain k where k: "is_first_min f pre k" "dm = f (pre ! k)"
        using Cons.prems(3) by auto
      with \<open>first \<or> f c < dm\<close> False have "is_first_min f (pre @ [c]) (length pre)"
        using is_first_min_snoc_less by auto
      then show ?thesis by (intro exI [of _ "length pre"]) simp
    qed
    then have "\<exists>mc' dm' first'. mdc_scan bg cls x (index c, f c, False) = Inr (mc', dm', first')
           \<and> (first' \<longleftrightarrow> (pre @ [c]) @ cls = [])
           \<and> (first' \<longrightarrow> mc' = index c)
           \<and> (\<not> first' \<longrightarrow> (\<exists>k. is_first_min f ((pre @ [c]) @ cls) k
                  \<and> dm' = f (((pre @ [c]) @ cls) ! k) \<and> mc' = index (((pre @ [c]) @ cls) ! k)))"
      by (intro Cons.IH [OF rest]) simp_all
    then show ?thesis using True pc by auto
  next
    case False
    then have nf: "\<not> first" and le: "dm \<le> f c" by auto
    then obtain k where k: "is_first_min f pre k" "dm = f (pre ! k)" "mc = index (pre ! k)"
      using Cons.prems(3) by auto
    have lt: "k < length pre" using k(1) by (simp add: is_first_min_def)
    have "is_first_min f (pre @ [c]) k" using k le is_first_min_snoc_keep by auto
    then have "\<exists>k. is_first_min f (pre @ [c]) k \<and> dm = f ((pre @ [c]) ! k)
             \<and> mc = index ((pre @ [c]) ! k)"
      using k lt by (intro exI [of _ k]) (simp add: nth_append)
    then have "\<exists>mc' dm' first'. mdc_scan bg cls x (mc, dm, first) = Inr (mc', dm', first')
           \<and> (first' \<longleftrightarrow> (pre @ [c]) @ cls = [])
           \<and> (first' \<longrightarrow> mc' = mc)
           \<and> (\<not> first' \<longrightarrow> (\<exists>k. is_first_min f ((pre @ [c]) @ cls) k
                  \<and> dm' = f (((pre @ [c]) @ cls) ! k) \<and> mc' = index (((pre @ [c]) @ cls) ! k)))"
      using nf by (intro Cons.IH [OF rest]) simp_all
    then show ?thesis using False pc by auto
  qed
qed

section \<open>Training\<close>

lemma train_loop_filter:
  "train_loop ms cls (kept, printed) =
     (kept @ filter (\<lambda>cl. size_tc cl \<ge> ms) cls,
      printed @ map (\<lambda>cl. Omitting (index cl) (size_tc cl))
                  (filter (\<lambda>cl. \<not> size_tc cl \<ge> ms) cls))"
  by (induction cls arbitrary: kept printed) simp_all

lemma mshape_is_mat: "is_mat r c A \<Longrightarrow> mshape A = (r, if r = 0 then 0 else c)"
  by (cases A) (auto simp: is_mat_def mshape_def)

lemma is_mat_zeros: "is_mat r c A \<Longrightarrow> is_mat r c (zeros (mshape A))"
  by (cases A) (auto simp: is_mat_def mshape_def zeros_def list_all_length)

lemma zeros_entry: "is_mat r c A \<Longrightarrow> i < r \<Longrightarrow> j < c \<Longrightarrow> zeros (mshape A) ! i ! j = 0"
  by (cases A) (auto simp: is_mat_def mshape_def zeros_def)

lemma is_mat_scale: "is_mat r c A \<Longrightarrow> is_mat r c (scale n A)"
  by (simp add: is_mat_def scale_def list_all_length)

lemma scale_entry:
  "is_mat r c A \<Longrightarrow> i < r \<Longrightarrow> j < c \<Longrightarrow> scale n A ! i ! j = of_int n * A ! i ! j"
  by (simp add: is_mat_def scale_def list_all_length)

lemma iadd_same_shape:
  assumes "is_mat r c A" "is_mat r c B"
  shows "\<exists>S. iadd A B = Inr S \<and> is_mat r c S
           \<and> (\<forall>i<r. \<forall>j<c. S ! i ! j = A ! i ! j + B ! i ! j)"
proof (cases "r = 0")
  case True
  then have "A = []" "B = []" using assms by (simp_all add: is_mat_def)
  then show ?thesis using True by (simp add: iadd_def mshape_def is_mat_def)
next
  case False
  then have sh: "mshape A = (r, c)" "mshape B = (r, c)"
    using assms by (simp_all add: mshape_is_mat)
  let ?S = "map (\<lambda>i. map (\<lambda>j. A ! i ! j + B ! (if r = 1 then 0 else i) ! (if c = 1 then 0 else j))
                          [0..<c]) [0..<r]"
  have "iadd A B = Inr ?S" by (simp add: iadd_def sh)
  moreover have "is_mat r c ?S" by (simp add: is_mat_def list_all_length)
  moreover have "\<forall>i<r. \<forall>j<c. ?S ! i ! j = A ! i ! j + B ! i ! j" by auto
  ultimately show ?thesis by blast
qed

lemma pool_loop_sum:
  assumes "\<forall>cl\<in>set cls. has_cov r c cl" "is_mat r c acc"
  shows "\<exists>acc' n'. pool_loop cls (acc, n) = Inr (acc', n') \<and> is_mat r c acc'
           \<and> (\<forall>i<r. \<forall>j<c. acc' ! i ! j = acc ! i ! j + (\<Sum>cl\<leftarrow>cls. weighted_entry cl i j))"
  using assms
proof (induction cls arbitrary: acc n)
  case Nil
  then show ?case by simp
next
  case (Cons cl cls)
  from Cons.prems(1) obtain st k where st: "stats cl = Some st" and k: "nsamples st = Some k"
    and m: "is_mat r c (cov st)"
    by (auto simp: has_cov_def split: option.splits)
  from iadd_same_shape [OF Cons.prems(2) is_mat_scale [OF m, of k]]
  obtain S where S: "iadd acc (scale k (cov st)) = Inr S" "is_mat r c S"
    "\<forall>i<r. \<forall>j<c. S ! i ! j = acc ! i ! j + scale k (cov st) ! i ! j" by blast
  have rest: "\<forall>cl\<in>set cls. has_cov r c cl" using Cons.prems(1) by simp
  from Cons.IH [OF rest S(2), of "n + k"]
  obtain acc' n' where r: "pool_loop cls (S, n + k) = Inr (acc', n')" "is_mat r c acc'"
    "\<forall>i<r. \<forall>j<c. acc' ! i ! j = S ! i ! j + (\<Sum>cl\<leftarrow>cls. weighted_entry cl i j)" by blast
  have "pool_loop (cl # cls) (acc, n) = Inr (acc', n')" using st k S(1) r(1) by simp
  moreover have "\<forall>i<r. \<forall>j<c. acc' ! i ! j
      = acc ! i ! j + (\<Sum>cl\<leftarrow>cl # cls. weighted_entry cl i j)"
    using r(3) S(3) scale_entry [OF m] st k by (simp add: weighted_entry_def)
  ultimately show ?case using r(2) by blast
qed

section \<open>The pixel loop\<close>

lemma length_ImageIterator: "length (ImageIterator im) = nrows im * ncols im"
  by (simp add: ImageIterator_def length_concat comp_def sum_list_triv)

lemma classify_loop_zero_inc:
  assumes "it \<noteq> []" "\<exists>k. classify_spectrum (fst (hd it)) = Inr k"
  shows "classify_loop classify_spectrum N 0 it st = Inl ZeroDivisionError"
proof -
  obtain x row col rest where it: "it = (x, row, col) # rest"
    using assms(1) by (cases it) auto
  obtain class_map i reported where st: "st = (class_map, i, reported)"
    by (metis prod_cases3)
  show ?thesis using assms(2) it st by auto
qed

lemma classify_loop_returns:
  assumes "inc \<noteq> 0" "\<forall>p\<in>set it. \<exists>k. classify_spectrum (fst p) = Inr k"
  shows "\<exists>st'. classify_loop classify_spectrum N inc it st = Inr st'"
  using assms
proof (induction it arbitrary: st)
  case Nil
  show ?case by (simp del: split_paired_Ex)
next
  case (Cons p it)
  obtain x row col where p: "p = (x, row, col)" by (metis prod_cases3)
  obtain class_map i reported where st: "st = (class_map, i, reported)"
    by (metis prod_cases3)
  from Cons.prems(2) p obtain k where k: "classify_spectrum x = Inr k" by auto
  have rest: "\<forall>p\<in>set it. \<exists>k. classify_spectrum (fst p) = Inr k"
    using Cons.prems(2) by simp
  show ?case
    using Cons.IH [OF Cons.prems(1) rest] k Cons.prems(1)
    by (simp add: p st Let_def)
qed

lemma streaming_small_image:
  assumes "\<forall>p\<in>set (ImageIterator im). \<exists>k. classify_spectrum (fst p) = Inr k"
    and "0 < get_num_elements im" "get_num_elements im < 100"
  shows "Classifier_classify_image classify_spectrum im = Inl ZeroDivisionError"
proof -
  have inc: "get_num_elements im div 100 = 0" using assms(2,3) by simp
  have "length (ImageIterator im) \<noteq> 0"
    using assms(2) by (simp add: length_ImageIterator get_num_elements_def del: of_nat_mult)
  then have ne: "ImageIterator im \<noteq> []" by simp
  then have "\<exists>k. classify_spectrum (fst (hd (ImageIterator im))) = Inr k"
    using assms(1) by simp
  with ne have "classify_loop classify_spectrum (get_num_elements im) 0 (ImageIterator im)
      (replicate (nrows im) (replicate (ncols im) 0), 0, []) = Inl ZeroDivisionError"
    by (rule classify_loop_zero_inc)
  then show ?thesis by (simp add: Classifier_classify_image_def inc)
qed

lemma streaming_other_image:
  assumes "\<forall>p\<in>set (ImageIterator im). \<exists>k. classify_spectrum (fst p) = Inr k"
    and "\<not> (0 < get_num_elements im \<and> get_num_elements im < 100)"
  shows "\<exists>class_map. Classifier_classify_image classify_spectrum im = Inr class_map"
proof (cases "get_num_elements im = 0")
  case True
  then have "length (ImageIterator im) = 0"
    by (simp add: length_ImageIterator get_num_elements_def)
  then have "ImageIterator im = []" by simp
  then show ?thesis by (simp add: Classifier_classify_image_def)
next
  case False
  have "0 \<le> get_num_elements im" by (simp add: get_num_elements_def)
  with False assms(2) have "100 \<le> get_num_elements im" by auto
  then have "get_num_elements im div 100 \<noteq> 0" by auto
  from classify_loop_returns [OF this assms(1)]
  obtain class_map i reported where "classify_loop classify_spectrum (get_num_elements im)
      (get_num_elements im div 100) (ImageIterator im)
      (replicate (nrows im) (replicate (ncols im) 0), 0, []) = Inr (class_map, i, reported)"
    by (metis prod_cases3)
  then show ?thesis by (simp add: Classifier_classify_image_def)
qed

section \<open>The claims\<close>

lemmas example_defs =
  identity2_def stats_A_def stats_B_def stats_C_def class_A_def class_B_def class_A2_def
  class_C_def class_S_def class_T_def gauss_BAA_def background_I_def mahal_BAA_def
  training_5_20_3_def training_A_C_def training_small_def det_2x2_def inv_2x2_def
  logdet_2x2_def untrained_mahal_def x_near_A_def image_1x1_def image_empty_def
  image_2x2_def calc_example_def

lemma upt_0_2: "[0..<2] = [0, Suc 0]"
  by (simp add: numeral_2_eq_2)

lemmas spectrum_defs =
  GaussianClassifier_classify_spectrum_def MahalanobisDistanceClassifier_classify_spectrum_def
  gc_prob_def mdc_d2_def sub_vec_def quad_form_def is_mat_def dot_vv_def dot_mv_def

lemmas image_defs =
  GaussianClassifier_classify_image_def MahalanobisDistanceClassifier_classify_image_def
  Classifier_classify_image_def ImageIterator_def get_num_elements_def spectrum_def
  reshape_image_def gc_score_column_def sub_rows_def dot_vm_def column_def np_argmax_def
  np_argmin_def first_index_def reshape2_def RX_def

text \<open>
  C3. For a Gaussian classifier with at least one class and a spectrum \<open>x\<close> that fits
  the classes (statistics present, mean of the length of \<open>x\<close>, square inverse covariance
  of that size, positive prior), \<^verbatim>\<open>classify_spectrum\<close> returns the index of the class at
  a position \<open>k\<close> where the score
  \<open>log(class_prob) - 0.5 \<cdot> log_det_cov - 0.5 \<cdot> (x - mean)\<^sup>t \<cdot> inv_cov \<cdot> (x - mean)\<close>
  is greatest; every earlier class scores strictly less, so the first class wins a tie.
  No bound on the scores is assumed: the first class's score starts the maximum.
\<close>

theorem C3_gaussian_first_maximum:
  assumes "classes self \<noteq> []"
    and "\<forall>cl\<in>set (classes self). gc_fits (length x) cl"
  shows "\<exists>k. is_first_max (\<lambda>c. spec_score c x) (classes self) k
             \<and> GaussianClassifier_classify_spectrum self x = Inr (index (classes self ! k))"
proof -
  have "\<forall>cl\<in>set (classes self). gc_prob cl x = Inr (spec_score cl x)"
    using assms(2) gc_prob_spec by blast
  from gc_scan_inv [OF this, of True "[]" "- 100000000000" "- 1"] assms(1)
  show ?thesis by (auto simp: GaussianClassifier_classify_spectrum_def)
qed

text \<open>
  On the classes B, A, A2 and a spectrum next to the mean of A, the classes A and A2 tie
  for the greatest score and the index of A, the earlier one, is returned.
\<close>

theorem C3_gaussian_first_maximum_witness:
  "classes gauss_BAA \<noteq> []
   \<and> list_all (gc_fits (length x_near_A)) (classes gauss_BAA)
   \<and> (\<exists>k. is_first_max (\<lambda>c. spec_score c x_near_A) (classes gauss_BAA) k
          \<and> GaussianClassifier_classify_spectrum gauss_BAA x_near_A
              = Inr (index (classes gauss_BAA ! k)))
   \<and> GaussianClassifier_classify_spectrum gauss_BAA x_near_A = Inr 1"
proof -
  have h1: "classes gauss_BAA \<noteq> []" by (simp add: gauss_BAA_def)
  have h2: "\<forall>cl\<in>set (classes gauss_BAA). gc_fits (length x_near_A) cl"
    by (simp add: example_defs gc_fits_def fits_def is_mat_def)
  have v: "GaussianClassifier_classify_spectrum gauss_BAA x_near_A = Inr 1"
    by (simp add: example_defs spectrum_defs)
  show ?thesis
    using h1 h2 v C3_gaussian_first_maximum [OF h1 h2] by (simp add: list_all_iff)
qed

text \<open>
  C4. For a Mahalanobis classifier with at least one class, a background whose inverse
  covariance is square of the size of the spectrum \<open>x\<close>, and classes whose means have
  the length of \<open>x\<close>, \<^verbatim>\<open>classify_spectrum\<close> returns the index of the class at a position
  \<open>k\<close> where the squared distance \<open>(x - mean)\<^sup>t \<cdot> background.inv_cov \<cdot> (x - mean)\<close>,
  taken with the one background inverse covariance for every class, is least; every
  earlier class is strictly farther, so the first class wins a tie.
\<close>

theorem C4_mahalanobis_first_minimum:
  assumes "classes self \<noteq> []"
    and "background self = Some bg"
    and "is_mat (length x) (length x) (inv_cov bg)"
    and "\<forall>cl\<in>set (classes self). fits (length x) cl"
  shows "\<exists>k. is_first_min (\<lambda>c. spec_d2 bg c x) (classes self) k
             \<and> MahalanobisDistanceClassifier_classify_spectrum self x
                 = Inr (index (classes self ! k))"
proof -
  have "\<forall>cl\<in>set (classes self). mdc_d2 (Some bg) cl x = Inr (spec_d2 bg cl x)"
    using assms(3,4) mdc_d2_spec by blast
  from mdc_scan_inv [OF this, of True "[]" "- 1" "- 1"] assms(1,2)
  show ?thesis by (auto simp: MahalanobisDistanceClassifier_classify_spectrum_def)
qed

text \<open>
  On the classes B, A, A2 and a spectrum next to the mean of A the nearest class is
  returned, not the farthest, and of the tied classes A and A2 the earlier one.
\<close>

theorem C4_mahalanobis_first_minimum_witness:
  "classes mahal_BAA \<noteq> []
   \<and> background mahal_BAA = Some background_I
   \<and> is_mat (length x_near_A) (length x_near_A) (inv_cov background_I)
   \<and> list_all (fits (length x_near_A)) (classes mahal_BAA)
   \<and> (\<exists>k. is_first_min (\<lambda>c. spec_d2 background_I c x_near_A) (classes mahal_BAA) k
          \<and> MahalanobisDistanceClassifier_classify_spectrum mahal_BAA x_near_A
              = Inr (index (classes mahal_BAA ! k)))
   \<and> MahalanobisDistanceClassifier_classify_spectrum mahal_BAA x_near_A = Inr 1"
proof -
  have h1: "classes mahal_BAA \<noteq> []" by (simp add: mahal_BAA_def)
  have h2: "background mahal_BAA = Some background_I" by (simp add: mahal_BAA_def)
  have h3: "is_mat (length x_near_A) (length x_near_A) (inv_cov background_I)"
    by (simp add: example_defs is_mat_def)
  have h4: "\<forall>cl\<in>set (classes mahal_BAA). fits (length x_near_A) cl"
    by (simp add: example_defs fits_def)
  have v: "MahalanobisDistanceClassifier_classify_spectrum mahal_BAA x_near_A = Inr 1"
    by (simp add: example_defs spectrum_defs)
  show ?thesis
    using h1 h2 h3 h4 v C4_mahalanobis_first_minimum [OF h1 h2 h3 h4]
    by (simp add: list_all_iff)
qed

text \<open>
  C10. On an object whose list of retained classes is empty, \<^verbatim>\<open>classify_spectrum\<close> of
  the Gaussian and of the Mahalanobis classifier returns \<open>-1\<close> for every spectrum and
  raises nothing; \<open>-1\<close> is the index of no retained class.
\<close>

theorem C10_no_classes_gives_minus_one:
  assumes "classes g = []" and "classes m = []"
  shows "GaussianClassifier_classify_spectrum g x = Inr (- 1)
       \<and> MahalanobisDistanceClassifier_classify_spectrum m y = Inr (- 1)
       \<and> - 1 \<notin> index ` set (classes g) \<and> - 1 \<notin> index ` set (classes m)"
  using assms
  by (simp add: GaussianClassifier_classify_spectrum_def
        MahalanobisDistanceClassifier_classify_spectrum_def)

text \<open>
  Training on two classes of 5 and 3 samples with 10 bands retains no class. The
  Mahalanobis training then raises \<^verbatim>\<open>IndexError\<close>, and leaves the empty list behind.
\<close>

theorem C10_no_classes_gives_minus_one_witness:
  "classes (fst (GaussianClassifier_train calc_example (GaussianClassifier_init None)
             training_small)) = []
   \<and> classes (fst (MahalanobisDistanceClassifier_train inv_2x2 logdet_2x2 calc_example
             untrained_mahal training_small)) = []
   \<and> snd (snd (MahalanobisDistanceClassifier_train inv_2x2 logdet_2x2 calc_example
             untrained_mahal training_small)) = Some IndexError
   \<and> GaussianClassifier_classify_spectrum
       (fst (GaussianClassifier_train calc_example (GaussianClassifier_init None)
               training_small)) x_near_A = Inr (- 1)
   \<and> MahalanobisDistanceClassifier_classify_spectrum
       (fst (MahalanobisDistanceClassifier_train inv_2x2 logdet_2x2 calc_example
               untrained_mahal training_small)) x_near_A = Inr (- 1)"
proof -
  have h1: "classes (fst (GaussianClassifier_train calc_example (GaussianClassifier_init None)
             training_small)) = []"
    by (simp add: GaussianClassifier_train_def GaussianClassifier_init_def truthy_def
          training_small_def class_S_def class_T_def)
  have h2: "classes (fst (MahalanobisDistanceClassifier_train inv_2x2 logdet_2x2 calc_example
             untrained_mahal training_small)) = []"
    by (simp add: MahalanobisDistanceClassifier_train_def GaussianClassifier_train_def
          truthy_def untrained_mahal_def training_small_def class_S_def class_T_def)
  have h3: "snd (snd (MahalanobisDistanceClassifier_train inv_2x2 logdet_2x2 calc_example
             untrained_mahal training_small)) = Some IndexError"
    by (simp add: MahalanobisDistanceClassifier_train_def GaussianClassifier_train_def
          truthy_def untrained_mahal_def training_small_def class_S_def class_T_def)
  show ?thesis
    using h1 h2 h3 C10_no_classes_gives_minus_one [OF h1 h2, of x_near_A x_near_A] by simp
qed

text \<open>
  C2. When \<^verbatim>\<open>MahalanobisDistanceClassifier.train\<close> has retained at least one class and
  the retained classes have covariances of one shape \<open>r \<times> c\<close> and their sample counts,
  it raises nothing and the covariance of the background it stores is, entry by entry,
  the sum over the retained classes of sample count times covariance; the sum is not
  divided by the number of samples.
\<close>

theorem C2_background_is_weighted_sum:
  assumes tr: "MahalanobisDistanceClassifier_train linalg_inv logdet calc_stats self td
             = (self', printed, raised)"
    and ne: "classes self' \<noteq> []"
    and hc: "\<forall>cl\<in>set (classes self'). has_cov r c cl"
  shows "raised = None \<and>
         (\<exists>bg. background self' = Some bg \<and> is_mat r c (cov bg) \<and>
            (\<forall>i<r. \<forall>j<c. cov bg ! i ! j = (\<Sum>cl\<leftarrow>classes self'. weighted_entry cl i j)))"
proof -
  obtain self1 pr where g: "GaussianClassifier_train calc_stats self td = (self1, pr)"
    by (cases "GaussianClassifier_train calc_stats self td")
  have same: "classes self' = classes self1"
    using tr g
    by (auto simp: MahalanobisDistanceClassifier_train_def
             split: list.splits option.splits sum.splits prod.splits)
  then obtain cl0 rest where c0: "classes self1 = cl0 # rest"
    using ne by (cases "classes self1") auto
  from hc same c0 obtain st0 where st0: "stats cl0 = Some st0" and m0: "is_mat r c (cov st0)"
    by (auto simp: has_cov_def split: option.splits)
  from pool_loop_sum [of "classes self1" r c "zeros (mshape (cov st0))" 0] hc same
    is_mat_zeros [OF m0]
  obtain acc n where p: "pool_loop (classes self1) (zeros (mshape (cov st0)), 0) = Inr (acc, n)"
    "is_mat r c acc"
    "\<forall>i<r. \<forall>j<c. acc ! i ! j = zeros (mshape (cov st0)) ! i ! j
        + (\<Sum>cl\<leftarrow>classes self1. weighted_entry cl i j)" by auto
  have res: "self' = self1\<lparr>background := Some (GaussianStats_of_cov linalg_inv logdet acc)\<rparr>"
    "raised = None"
    using tr g c0 st0 p(1) by (simp_all add: MahalanobisDistanceClassifier_train_def)
  have "\<forall>i<r. \<forall>j<c. acc ! i ! j = (\<Sum>cl\<leftarrow>classes self'. weighted_entry cl i j)"
    using p(3) zeros_entry [OF m0] same by simp
  then show ?thesis using res p(2) by (simp add: GaussianStats_of_cov_def)
qed

text \<open>
  Class A with 20 samples and the identity as covariance, class C with 10 samples and
  covariance \<open>((2, 1), (1, 2))\<close>: the background covariance is \<open>((40, 10), (10, 40))\<close>.
\<close>

theorem C2_background_is_weighted_sum_witness:
  "classes (fst (MahalanobisDistanceClassifier_train inv_2x2 logdet_2x2 calc_example
                  untrained_mahal training_A_C)) \<noteq> []
   \<and> list_all (has_cov 2 2)
         (classes (fst (MahalanobisDistanceClassifier_train inv_2x2 logdet_2x2
                  calc_example untrained_mahal training_A_C)))
   \<and> snd (snd (MahalanobisDistanceClassifier_train inv_2x2 logdet_2x2 calc_example
                  untrained_mahal training_A_C)) = None
   \<and> (\<exists>bg. background (fst (MahalanobisDistanceClassifier_train inv_2x2 logdet_2x2
                  calc_example untrained_mahal training_A_C)) = Some bg
          \<and> is_mat 2 2 (cov bg)
          \<and> (\<forall>i<2. \<forall>j<2. cov bg ! i ! j
                = (\<Sum>cl\<leftarrow>classes (fst (MahalanobisDistanceClassifier_train inv_2x2 logdet_2x2
                       calc_example untrained_mahal training_A_C)). weighted_entry cl i j)))
   \<and> map_option cov (background (fst (MahalanobisDistanceClassifier_train inv_2x2 logdet_2x2
                  calc_example untrained_mahal training_A_C))) = Some [[40, 10], [10, 40]]"
proof -
  let ?T = "MahalanobisDistanceClassifier_train inv_2x2 logdet_2x2 calc_example
              untrained_mahal training_A_C"
  have cls: "classes (fst ?T) = [class_A, class_C]"
    by (simp add: MahalanobisDistanceClassifier_train_def GaussianClassifier_train_def
          truthy_def ensure_stats_def iadd_def mshape_def zeros_def scale_def
          untrained_mahal_def training_A_C_def class_A_def class_C_def stats_A_def
          stats_C_def identity2_def)
  have h0: "?T = (fst ?T, fst (snd ?T), snd (snd ?T))" by simp
  have h1: "classes (fst ?T) \<noteq> []" by (simp add: cls)
  have h2: "\<forall>cl\<in>set (classes (fst ?T)). has_cov 2 2 cl"
    by (simp add: cls has_cov_def is_mat_def class_A_def class_C_def stats_A_def
          stats_C_def identity2_def)
  have v: "map_option cov (background (fst ?T)) = Some [[40, 10], [10, 40]]"
    by (simp add: MahalanobisDistanceClassifier_train_def GaussianClassifier_train_def
          truthy_def ensure_stats_def iadd_def mshape_def zeros_def scale_def
          GaussianStats_of_cov_def
          untrained_mahal_def training_A_C_def class_A_def class_C_def stats_A_def
          stats_C_def identity2_def)
  show ?thesis
    using h1 h2 v C2_background_is_weighted_sum [OF h0 h1 h2] by (simp add: list_all_iff)
qed

text \<open>
  C5. \<^verbatim>\<open>GaussianClassifier.train\<close> retains exactly the classes of the training set whose
  sample count is at least the threshold in force (\<^verbatim>\<open>self.min_samples\<close> if it is set and
  not zero, the number of bands otherwise), in the order of the training set; for each
  other class it prints one line with the class index and its sample count, in that
  order too, and raises nothing. With sample counts 5, 20, 3 and \<^verbatim>\<open>min_samples = 10\<close>
  the class with 20 samples is the only one retained.
\<close>

theorem C5_train_retains_by_threshold:
  "classes (fst (GaussianClassifier_train calc_stats self td))
     = map (ensure_stats calc_stats)
         (filter (\<lambda>cl. size_tc cl \<ge> (if truthy (min_samples self) then the (min_samples self)
                                         else nbands td))
            (members td))
   \<and> snd (GaussianClassifier_train calc_stats self td)
     = map (\<lambda>cl. Omitting (index cl) (size_tc cl))
         (filter (\<lambda>cl. \<not> size_tc cl \<ge> (if truthy (min_samples self) then the (min_samples self)
                                           else nbands td))
            (members td))
   \<and> map size_tc (members training_5_20_3) = [5, 20, 3]
   \<and> classes (fst (GaussianClassifier_train calc_stats (GaussianClassifier_init (Some 10))
                    training_5_20_3)) = [class_A]
   \<and> snd (GaussianClassifier_train calc_stats (GaussianClassifier_init (Some 10))
            training_5_20_3) = [Omitting 4 5, Omitting 5 3]"
  by (simp add: GaussianClassifier_train_def GaussianClassifier_init_def truthy_def
        train_loop_filter Let_def ensure_stats_def training_5_20_3_def class_S_def
        class_A_def class_T_def)

text \<open>
  C6. When no \<^verbatim>\<open>min_samples\<close> was given to the constructor, or the attribute is unset
  for another reason, \<^verbatim>\<open>train\<close> sets \<^verbatim>\<open>self.min_samples\<close> to the number of bands of the
  training data and filters the classes with that number. (\<^verbatim>\<open>train\<close> itself takes no
  \<^verbatim>\<open>min_samples\<close> argument.)
\<close>

theorem C6_min_samples_defaults_to_nbands:
  "min_samples (fst (GaussianClassifier_train calc_stats (GaussianClassifier_init None) td))
     = Some (nbands td)
   \<and> classes (fst (GaussianClassifier_train calc_stats (GaussianClassifier_init None) td))
     = map (ensure_stats calc_stats) (filter (\<lambda>cl. size_tc cl \<ge> nbands td) (members td))
   \<and> min_samples (fst (GaussianClassifier_train calc_stats (self\<lparr>min_samples := None\<rparr>) td))
     = Some (nbands td)
   \<and> classes (fst (GaussianClassifier_train calc_stats (self\<lparr>min_samples := None\<rparr>) td))
     = map (ensure_stats calc_stats) (filter (\<lambda>cl. size_tc cl \<ge> nbands td) (members td))"
  by (simp add: GaussianClassifier_train_def GaussianClassifier_init_def truthy_def
        train_loop_filter Let_def)

text \<open>
  C7. \<^verbatim>\<open>classify_spectrum\<close> of the base class raises \<^verbatim>\<open>NotImplementedError\<close> on every
  object and every list of positional and keyword arguments.
\<close>

theorem C7_base_classify_spectrum_not_implemented:
  "Classifier_classify_spectrum self args kwargs = Inl NotImplementedError"
  by (simp add: Classifier_classify_spectrum_def)

text \<open>
  C9, as stated, fails on an image without pixels: it has fewer than 100 pixels, the
  loop body never runs, and the call returns the empty class map.
\<close>

theorem C9_empty_image_counterexample:
  "get_num_elements image_empty < 100
   \<and> Classifier_classify_image (GaussianClassifier_classify_spectrum gauss_BAA) image_empty
       = Inr []"
  by (simp add: Classifier_classify_image_def ImageIterator_def get_num_elements_def
        image_empty_def)

text \<open>
  C9, amended. The increment is the integer quotient of the pixel count by 100 and
  \<^verbatim>\<open>i % inc\<close> is evaluated after each pixel is classified. When \<^verbatim>\<open>classify_spectrum\<close>
  returns for every pixel of the image, the call raises \<^verbatim>\<open>ZeroDivisionError\<close> if the
  image has at least one and fewer than 100 pixels, and returns a class map if it has
  no pixel or at least 100.
\<close>

theorem C9_division_by_zero_on_small_images:
  assumes "\<forall>p\<in>set (ImageIterator im). \<exists>k. classify_spectrum (fst p) = Inr k"
  shows "if 0 < get_num_elements im \<and> get_num_elements im < 100
         then Classifier_classify_image classify_spectrum im = Inl ZeroDivisionError
         else (\<exists>class_map. Classifier_classify_image classify_spectrum im = Inr class_map)"
proof (cases "0 < get_num_elements im \<and> get_num_elements im < 100")
  case True
  then have "Classifier_classify_image classify_spectrum im = Inl ZeroDivisionError"
    using streaming_small_image [OF assms] by simp
  with True show ?thesis by simp
next
  case False
  then have "\<exists>class_map. Classifier_classify_image classify_spectrum im = Inr class_map"
    using streaming_other_image [OF assms] by simp
  with False show ?thesis by auto
qed

text \<open>An image of one pixel, which the Gaussian classifier on B, A, A2 can classify.\<close>

theorem C9_division_by_zero_on_small_images_witness:
  "list_all (\<lambda>p. \<exists>k. GaussianClassifier_classify_spectrum gauss_BAA (fst p) = Inr k)
     (ImageIterator image_1x1)
   \<and> 0 < get_num_elements image_1x1 \<and> get_num_elements image_1x1 < 100
   \<and> Classifier_classify_image (GaussianClassifier_classify_spectrum gauss_BAA) image_1x1
       = Inl ZeroDivisionError"
proof -
  have h: "\<forall>p\<in>set (ImageIterator image_1x1).
       \<exists>k. GaussianClassifier_classify_spectrum gauss_BAA (fst p) = Inr k"
    by (simp add: ImageIterator_def spectrum_def example_defs spectrum_defs)
  have n: "0 < get_num_elements image_1x1 \<and> get_num_elements image_1x1 < 100"
    by (simp add: get_num_elements_def image_1x1_def)
  show ?thesis
    using h n C9_division_by_zero_on_small_images [OF h] by (simp add: list_all_iff)
qed

text \<open>
  C1. The two paths of \<^verbatim>\<open>classify_image\<close> differ on an image of one pixel: with
  \<^verbatim>\<open>cache_class_scores\<close> false the pixel loop raises \<^verbatim>\<open>ZeroDivisionError\<close> (the
  increment \<^verbatim>\<open>N / 100\<close> is zero), with it true the class map is returned; so for the
  Gaussian and for the Mahalanobis classifier.
\<close>

theorem C1_paths_differ_on_one_pixel:
  "GaussianClassifier_classify_image
     (GaussianClassifier_classify_spectrum (gauss_BAA\<lparr>cache_class_scores := False\<rparr>))
     (gauss_BAA\<lparr>cache_class_scores := False\<rparr>) image_1x1 = Inl ZeroDivisionError
   \<and> GaussianClassifier_classify_image
     (GaussianClassifier_classify_spectrum gauss_BAA) gauss_BAA image_1x1 = Inr [[1]]
   \<and> fst (MahalanobisDistanceClassifier_classify_image RX
            (mahal_BAA\<lparr>cache_class_scores := False\<rparr>) image_1x1) = Inl ZeroDivisionError
   \<and> fst (MahalanobisDistanceClassifier_classify_image RX mahal_BAA image_1x1) = Inr [[1]]"
  by (simp add: example_defs spectrum_defs image_defs upt_0_2 Let_def)

text \<open>
  C8. On an image of two rows of two pixels the pixel loop returns no class map: it
  raises \<^verbatim>\<open>ZeroDivisionError\<close> after the first pixel, for the Gaussian and for the
  Mahalanobis classifier. The two other paths return a \<open>2 \<times> 2\<close> map of retained indices.
\<close>

theorem C8_pixel_loop_returns_no_map_on_small_image:
  "GaussianClassifier_classify_image
     (GaussianClassifier_classify_spectrum (gauss_BAA\<lparr>cache_class_scores := False\<rparr>))
     (gauss_BAA\<lparr>cache_class_scores := False\<rparr>) image_2x2 = Inl ZeroDivisionError
   \<and> fst (MahalanobisDistanceClassifier_classify_image RX
            (mahal_BAA\<lparr>cache_class_scores := False\<rparr>) image_2x2) = Inl ZeroDivisionError
   \<and> GaussianClassifier_classify_image
     (GaussianClassifier_classify_spectrum gauss_BAA) gauss_BAA image_2x2
       = Inr [[1, 1], [2, 2]]
   \<and> fst (MahalanobisDistanceClassifier_classify_image RX mahal_BAA image_2x2)
       = Inr [[1, 1], [2, 2]]"
  by (simp add: example_defs spectrum_defs image_defs upt_0_2 Let_def)

end
